theory Spec2Isabelle
  imports Main
begin

section \<open>The theme configuration of the documentation site\<close>

text \<open>
  The only program text of the repository is \<^verbatim>\<open>theme.config.tsx\<close>:
  \<^verbatim>\<open>
  import React from 'react'
  import { DocsThemeConfig } from 'nextra-theme-docs'

  const config: DocsThemeConfig = {
    logo: <span>Inngest Core</span>,
    project: {
      link: 'https://github.com/inngest',
    },
    chat: {
      link: 'https://discord.com/invite/mPfcyDEdpx',
    },
    docsRepositoryBase: 'https://github.com/inngest/website',
    footer: {
      content: 'Inngest Docs',
    },
  }

  export default config
  \<close>
  The other files are documentation pages (MDX prose); no claim is about them.
\<close>

subsection \<open>JavaScript values\<close>

text \<open>
  A value as a reader of the configuration sees it: a primitive, a function, a plain
  object (its own enumerable properties in insertion order) or an element built by a
  JSX expression (tag, properties, children). Keys that look like array indices, which
  JavaScript lists before the others, do not occur in the configuration, and the model
  keeps every key where it was written.
\<close>

datatype jsvalue =
    VUndefined
  | VNull
  | VBoolean bool
  | VNumber int
  | VString string
  | VFunction "string list" string
  | VObject "(string \<times> jsvalue) list"
  | VElement string "(string \<times> jsvalue) list" "jsvalue list"

text \<open>\<^verbatim>\<open>Object.keys(v)\<close> for a plain object; the other values have no own keys here.\<close>

fun own_keys :: "jsvalue \<Rightarrow> string list" where
  "own_keys (VObject fs) = map fst fs"
| "own_keys _ = []"

text \<open>Reading a property, \<^verbatim>\<open>v.k\<close>: a key that is absent reads as \<^verbatim>\<open>undefined\<close>.\<close>

fun get_prop :: "jsvalue \<Rightarrow> string \<Rightarrow> jsvalue" where
  "get_prop (VObject fs) k = (case map_of fs k of Some v \<Rightarrow> v | None \<Rightarrow> VUndefined)"
| "get_prop _ k = VUndefined"

text \<open>\<^verbatim>\<open>typeof v === 'string'\<close> and the other classifications the claims use.\<close>

fun is_string :: "jsvalue \<Rightarrow> bool" where
  "is_string (VString s) = True"
| "is_string _ = False"

fun is_function :: "jsvalue \<Rightarrow> bool" where
  "is_function (VFunction ps b) = True"
| "is_function _ = False"

fun is_element :: "jsvalue \<Rightarrow> bool" where
  "is_element (VElement t ps cs) = True"
| "is_element _ = False"

fun is_plain_object :: "jsvalue \<Rightarrow> bool" where
  "is_plain_object (VObject fs) = True"
| "is_plain_object _ = False"

text \<open>
  A scalar is a primitive: neither a plain object, nor an element (an element is an
  object of the rendering library), nor a function.
\<close>

fun is_scalar :: "jsvalue \<Rightarrow> bool" where
  "is_scalar VUndefined = True"
| "is_scalar VNull = True"
| "is_scalar (VBoolean b) = True"
| "is_scalar (VNumber n) = True"
| "is_scalar (VString s) = True"
| "is_scalar (VFunction ps b) = False"
| "is_scalar (VObject fs) = False"
| "is_scalar (VElement t ps cs) = False"

text \<open>The tag of an element and its text content (the string children, concatenated).\<close>

fun element_tag :: "jsvalue \<Rightarrow> string option" where
  "element_tag (VElement t ps cs) = Some t"
| "element_tag _ = None"

fun text_of :: "jsvalue \<Rightarrow> string" where
  "text_of (VString s) = s"
| "text_of (VElement t ps cs) = concat (map text_of cs)"
| "text_of _ = []"

subsection \<open>The configuration object\<close>

definition config :: jsvalue where
  "config = VObject
     [ (''logo'', VElement ''span'' [] [VString ''Inngest Core'']),
       (''project'', VObject
          [ (''link'', VString ''https://github.com/inngest'') ]),
       (''chat'', VObject
          [ (''link'', VString ''https://discord.com/invite/mPfcyDEdpx'') ]),
       (''docsRepositoryBase'', VString ''https://github.com/inngest/website''),
       (''footer'', VObject
          [ (''content'', VString ''Inngest Docs'') ]) ]"

text \<open>
  The specification calls the configuration flat when every value bound to one of its
  keys is a scalar.
\<close>

fun fields_of :: "jsvalue \<Rightarrow> (string \<times> jsvalue) list" where
  "fields_of (VObject fs) = fs"
| "fields_of _ = []"

definition is_flat :: "jsvalue \<Rightarrow> bool" where
  "is_flat v = (is_plain_object v \<and> list_all is_scalar (map snd (fields_of v)))"

subsection \<open>Absolute URLs\<close>

text \<open>
  The property "well-formed absolute URL" of the interface table, after RFC 3986: a
  scheme (a letter, then letters, digits, plus, minus or dot), the separator
  \<^verbatim>\<open>://\<close>, a non-empty host of letters, digits, minus, dot, underscore or tilde, an
  optional port of digits, and a rest (path, query, fragment) of printable characters
  without blanks, empty or opened by a slash, a question mark or a hash. The parser
  returns the parts, or \<open>None\<close> when the text is no such URL.
\<close>

definition is_alpha :: "char \<Rightarrow> bool" where
  "is_alpha c = (let n = (of_char c :: nat) in (65 \<le> n \<and> n \<le> 90) \<or> (97 \<le> n \<and> n \<le> 122))"

definition is_digit :: "char \<Rightarrow> bool" where
  "is_digit c = (let n = (of_char c :: nat) in 48 \<le> n \<and> n \<le> 57)"

definition is_scheme_char :: "char \<Rightarrow> bool" where
  "is_scheme_char c = (is_alpha c \<or> is_digit c \<or> c \<in> set ''+-.'')"

definition is_host_char :: "char \<Rightarrow> bool" where
  "is_host_char c = (is_alpha c \<or> is_digit c \<or> c \<in> set ''-._~'')"

definition is_url_char :: "char \<Rightarrow> bool" where
  "is_url_char c = (let n = (of_char c :: nat) in 33 \<le> n \<and> n \<le> 126)"

record url =
  scheme :: string
  host :: string
  port :: string
  rest :: string

definition parse_url :: "string \<Rightarrow> url option" where
  "parse_url s =
     (let sch = takeWhile is_scheme_char s;
          after_scheme = dropWhile is_scheme_char s;
          authority = takeWhile (\<lambda>c. c \<notin> set ''/?#'') (drop 3 after_scheme);
          tail = dropWhile (\<lambda>c. c \<notin> set ''/?#'') (drop 3 after_scheme);
          h = takeWhile is_host_char authority;
          after_host = dropWhile is_host_char authority
      in if sch = [] then None
         else if \<not> is_alpha (hd sch) then None
         else if take 3 after_scheme \<noteq> ''://'' then None
         else if h = [] then None
         else if after_host \<noteq> [] \<and> \<not> (hd after_host = CHR '':'' \<and> list_all is_digit (tl after_host))
           then None
         else if \<not> list_all is_url_char tail then None
         else Some \<lparr> scheme = sch, host = h, port = drop 1 after_host, rest = tail \<rparr>)"

subsection \<open>JSON text\<close>

text \<open>
  \<^verbatim>\<open>JSON.stringify\<close> and \<^verbatim>\<open>JSON.parse\<close> on objects, strings, integers,
  booleans and null. A property whose value is \<^verbatim>\<open>undefined\<close> or a function is left
  out of the text, and at top level such a value has no text (\<open>None\<close>). An element has no
  text in this model: how it serialises is a matter of the rendering library. Arrays,
  fractions and escapes beyond one byte are outside the model, and the parser answers
  \<open>None\<close> on them as on any malformed text. A key that occurs twice keeps its first
  place and its last value.
\<close>

fun set_field :: "string \<Rightarrow> 'a \<Rightarrow> (string \<times> 'a) list \<Rightarrow> (string \<times> 'a) list" where
  "set_field k v [] = [(k, v)]"
| "set_field k v ((k', v') # fs) =
     (if k = k' then (k, v) # fs else (k', v') # set_field k v fs)"

text \<open>The object without one of its keys (\<^verbatim>\<open>const { [k]: _, ...others } = v\<close>).\<close>

fun without_key :: "string \<Rightarrow> jsvalue \<Rightarrow> jsvalue" where
  "without_key k (VObject fs) = VObject (filter (\<lambda>kv. fst kv \<noteq> k) fs)"
| "without_key k v = v"

text \<open>Plain data made of strings only: a string, or a plain object of such data.\<close>

fun is_string_data :: "jsvalue \<Rightarrow> bool" where
  "is_string_data (VString s) = True"
| "is_string_data (VObject fs) = list_all (\<lambda>kv. is_string_data (snd kv)) fs"
| "is_string_data _ = False"

text \<open>No key occurs twice in an object, at any depth (so it is for every object literal here).\<close>

fun distinct_keys :: "jsvalue \<Rightarrow> bool" where
  "distinct_keys (VObject fs) =
     (distinct (map fst fs) \<and> list_all (\<lambda>kv. distinct_keys (snd kv)) fs)"
| "distinct_keys _ = True"

definition dquote :: char where
  "dquote = CHR 0x22"

definition backslash :: char where
  "backslash = CHR 0x5C"

definition hex_digit :: "nat \<Rightarrow> char" where
  "hex_digit n = (if n < 10 then char_of (48 + n) else char_of (87 + n))"

definition json_escape :: "char \<Rightarrow> string" where
  "json_escape c =
     (if c = dquote then [backslash, dquote]
      else if c = backslash then [backslash, backslash]
      else if c = CHR 0x08 then [backslash, CHR ''b'']
      else if c = CHR 0x0C then [backslash, CHR ''f'']
      else if c = CHR 0x0A then [backslash, CHR ''n'']
      else if c = CHR 0x0D then [backslash, CHR ''r'']
      else if c = CHR 0x09 then [backslash, CHR ''t'']
      else if (of_char c :: nat) < 32
        then [backslash, CHR ''u'', CHR ''0'', CHR ''0'',
              hex_digit (of_char c div 16), hex_digit (of_char c mod 16)]
      else [c])"

definition json_quote :: "string \<Rightarrow> string" where
  "json_quote s = dquote # concat (map json_escape s) @ [dquote]"

fun show_nat :: "nat \<Rightarrow> string" where
  "show_nat n =
     (if n < 10 then [char_of (48 + n)] else show_nat (n div 10) @ [char_of (48 + n mod 10)])"

definition show_int :: "int \<Rightarrow> string" where
  "show_int i = (if i < 0 then CHR ''-'' # show_nat (nat (- i)) else show_nat (nat i))"

fun join_with :: "string \<Rightarrow> string list \<Rightarrow> string" where
  "join_with sep [] = []"
| "join_with sep [x] = x"
| "join_with sep (x # y # ys) = x @ sep @ join_with sep (y # ys)"

fun json_stringify :: "jsvalue \<Rightarrow> string option"
and json_members :: "(string \<times> jsvalue) list \<Rightarrow> string list option"
where
  "json_stringify VUndefined = None"
| "json_stringify VNull = Some ''null''"
| "json_stringify (VBoolean b) = Some (if b then ''true'' else ''false'')"
| "json_stringify (VNumber i) = Some (show_int i)"
| "json_stringify (VString s) = Some (json_quote s)"
| "json_stringify (VFunction ps b) = None"
| "json_stringify (VObject fs) =
     map_option (\<lambda>ms. ''{'' @ join_with '','' ms @ ''}'') (json_members fs)"
| "json_stringify (VElement t ps cs) = None"
| "json_members [] = Some []"
| "json_members ((k, v) # fs) =
     (if v = VUndefined \<or> is_function v then json_members fs
      else case json_stringify v of
             None \<Rightarrow> None
           | Some t \<Rightarrow> map_option ((#) (json_quote k @ '':'' @ t)) (json_members fs))"

definition skip_ws :: "string \<Rightarrow> string" where
  "skip_ws s = dropWhile (\<lambda>c. c \<in> set [CHR '' '', CHR 0x09, CHR 0x0A, CHR 0x0D]) s"

definition hex_value :: "char \<Rightarrow> nat option" where
  "hex_value c =
     (let n = (of_char c :: nat) in
      if 48 \<le> n \<and> n \<le> 57 then Some (n - 48)
      else if 97 \<le> n \<and> n \<le> 102 then Some (n - 87)
      else if 65 \<le> n \<and> n \<le> 70 then Some (n - 55)
      else None)"

definition unescape :: "char \<Rightarrow> char option" where
  "unescape e =
     (if e = dquote then Some dquote
      else if e = backslash then Some backslash
      else if e = CHR ''/'' then Some CHR ''/''
      else if e = CHR ''b'' then Some (CHR 0x08)
      else if e = CHR ''f'' then Some (CHR 0x0C)
      else if e = CHR ''n'' then Some (CHR 0x0A)
      else if e = CHR ''r'' then Some (CHR 0x0D)
      else if e = CHR ''t'' then Some (CHR 0x09)
      else None)"

definition unicode_escape :: "char \<Rightarrow> char \<Rightarrow> char \<Rightarrow> char \<Rightarrow> char option" where
  "unicode_escape a b c d =
     (case (hex_value a, hex_value b, hex_value c, hex_value d) of
        (Some x3, Some x2, Some x1, Some x0) \<Rightarrow>
          if x3 = 0 \<and> x2 = 0 then Some (char_of (16 * x1 + x0)) else None
      | _ \<Rightarrow> None)"

text \<open>The text of a string after its opening quote: the decoded string and what follows.\<close>

fun parse_string_body :: "string \<Rightarrow> (string \<times> string) option" where
  "parse_string_body [] = None"
| "parse_string_body (c # cs) =
     (if c = dquote then Some ([], cs)
      else if c = backslash then
        (case cs of
           [] \<Rightarrow> None
         | e # cs' \<Rightarrow>
             if e = CHR ''u'' then
               (case cs' of
                  a # b # c # d # cs'' \<Rightarrow>
                    (case unicode_escape a b c d of
                       None \<Rightarrow> None
                     | Some x \<Rightarrow> map_option (\<lambda>(t, r). (x # t, r)) (parse_string_body cs''))
                | _ \<Rightarrow> None)
             else
               (case unescape e of
                  None \<Rightarrow> None
                | Some x \<Rightarrow> map_option (\<lambda>(t, r). (x # t, r)) (parse_string_body cs')))
      else if (of_char c :: nat) < 32 then None
      else map_option (\<lambda>(t, r). (c # t, r)) (parse_string_body cs))"

fun digits_value :: "nat \<Rightarrow> string \<Rightarrow> nat" where
  "digits_value acc [] = acc"
| "digits_value acc (c # cs) = digits_value (10 * acc + (of_char c - 48)) cs"

definition parse_number :: "string \<Rightarrow> (jsvalue \<times> string) option" where
  "parse_number s =
     (let neg = (take 1 s = ''-'');
          body = (if neg then drop 1 s else s);
          ds = takeWhile is_digit body;
          r = dropWhile is_digit body
      in if ds = [] then None
         else if length ds > 1 \<and> hd ds = CHR ''0'' then None
         else if r \<noteq> [] \<and> hd r \<in> set ''.eE'' then None
         else Some (VNumber (if neg then - int (digits_value 0 ds) else int (digits_value 0 ds)), r))"

text \<open>
  The recursive descent over values and the members of an object. The first argument
  bounds the number of nested calls; the length of the text is enough.
\<close>

fun parse_value :: "nat \<Rightarrow> string \<Rightarrow> (jsvalue \<times> string) option"
and parse_members :: "nat \<Rightarrow> string \<Rightarrow> (string \<times> jsvalue) list
      \<Rightarrow> ((string \<times> jsvalue) list \<times> string) option"
where
  "parse_value 0 s = None"
| "parse_value (Suc n) s =
     (case skip_ws s of
        [] \<Rightarrow> None
      | c # cs \<Rightarrow>
          if c = dquote then map_option (\<lambda>(t, r). (VString t, r)) (parse_string_body cs)
          else if c = CHR ''{'' then
            (case skip_ws cs of
               [] \<Rightarrow> None
             | d # ds \<Rightarrow>
                 if d = CHR ''}'' then Some (VObject [], ds)
                 else map_option (\<lambda>(fs, r). (VObject fs, r)) (parse_members n (d # ds) []))
          else if take 4 (c # cs) = ''null'' then Some (VNull, drop 4 (c # cs))
          else if take 4 (c # cs) = ''true'' then Some (VBoolean True, drop 4 (c # cs))
          else if take 5 (c # cs) = ''false'' then Some (VBoolean False, drop 5 (c # cs))
          else if c = CHR ''-'' \<or> is_digit c then parse_number (c # cs)
          else None)"
| "parse_members 0 s acc = None"
| "parse_members (Suc n) s acc =
     (case skip_ws s of
        [] \<Rightarrow> None
      | c # cs \<Rightarrow>
          if c \<noteq> dquote then None
          else
            (case parse_string_body cs of
               None \<Rightarrow> None
             | Some (k, r1) \<Rightarrow>
                 (case skip_ws r1 of
                    [] \<Rightarrow> None
                  | c1 # r2 \<Rightarrow>
                      if c1 \<noteq> CHR '':'' then None
                      else
                        (case parse_value n r2 of
                           None \<Rightarrow> None
                         | Some (v, r3) \<Rightarrow>
                             (case skip_ws r3 of
                                [] \<Rightarrow> None
                              | c2 # r4 \<Rightarrow>
                                  if c2 = CHR '','' then parse_members n r4 (set_field k v acc)
                                  else if c2 = CHR ''}'' then Some (set_field k v acc, r4)
                                  else None)))))"

definition json_parse :: "string \<Rightarrow> jsvalue option" where
  "json_parse s =
     (case parse_value (Suc (length s)) s of
        None \<Rightarrow> None
      | Some (v, r) \<Rightarrow> if skip_ws r = [] then Some v else None)"

text \<open>The JSON text of the configuration without its logo.\<close>

definition config_json :: string where
  \<open>config_json = ''{"project":{"link":"https://github.com/inngest"},"chat":{"link":"https://discord.com/invite/mPfcyDEdpx"},"docsRepositoryBase":"https://github.com/inngest/website","footer":{"content":"Inngest Docs"}}''\<close>

section \<open>The module and its evaluation\<close>

subsection \<open>Syntax\<close>

text \<open>
  The module as the JavaScript it compiles to: type annotations are erased, and so is
  the import of \<^verbatim>\<open>DocsThemeConfig\<close>, which names a type only. The expressions are
  those a configuration literal can be built from (string literals, identifiers, arrow
  functions, object literals and JSX elements with their tag, attributes and children; a
  JSX text child is a string literal) and the assignment to a name, the one expression
  that writes state.
\<close>

datatype expr =
    StringLit string
  | Ident string
  | Arrow "string list" string
  | ObjectLit "(string \<times> expr) list"
  | JsxElement string "(string \<times> expr) list" "expr list"
  | Assign string expr

datatype stmt =
    ImportDefault string string
  | ImportTypeOnly "string list" string
  | ConstDecl string expr
  | ExportDefault expr

definition config_literal :: expr where
  "config_literal = ObjectLit
     [ (''logo'', JsxElement ''span'' [] [StringLit ''Inngest Core'']),
       (''project'', ObjectLit
          [ (''link'', StringLit ''https://github.com/inngest'') ]),
       (''chat'', ObjectLit
          [ (''link'', StringLit ''https://discord.com/invite/mPfcyDEdpx'') ]),
       (''docsRepositoryBase'', StringLit ''https://github.com/inngest/website''),
       (''footer'', ObjectLit
          [ (''content'', StringLit ''Inngest Docs'') ]) ]"

definition theme_config_module :: "stmt list" where
  "theme_config_module =
     [ ImportDefault ''React'' ''react'',
       ImportTypeOnly [''DocsThemeConfig''] ''nextra-theme-docs'',
       ConstDecl ''config'' config_literal,
       ExportDefault (Ident ''config'') ]"

text \<open>
  The names an expression may read or write when it is evaluated. A JSX element may
  read \<^verbatim>\<open>React\<close>: the file imports React on its first line for this alone, as the
  classic JSX transform requires, under which \<^verbatim>\<open><span>Inngest Core</span>\<close> is the
  call \<^verbatim>\<open>React.createElement('span', null, 'Inngest Core')\<close>.
\<close>

fun idents_of :: "expr \<Rightarrow> string list" where
  "idents_of (StringLit s) = []"
| "idents_of (Ident x) = [x]"
| "idents_of (Arrow ps b) = []"
| "idents_of (ObjectLit fs) = concat (map (\<lambda>ke. idents_of (snd ke)) fs)"
| "idents_of (JsxElement t as cs) =
     ''React'' # concat (map (\<lambda>ke. idents_of (snd ke)) as) @ concat (map idents_of cs)"
| "idents_of (Assign x e) = x # idents_of e"

text \<open>A literal proper: strings, arrow functions and objects of such, nothing else.\<close>

fun is_literal :: "expr \<Rightarrow> bool" where
  "is_literal (StringLit s) = True"
| "is_literal (Arrow ps b) = True"
| "is_literal (ObjectLit fs) = list_all (\<lambda>ke. is_literal (snd ke)) fs"
| "is_literal _ = False"

subsection \<open>Objects with identity\<close>

text \<open>
  Objects, elements and functions live in a heap and are known by their address, so that
  two names can hold the same object. A new cell goes to the end of the heap. The world
  an expression runs in is the heap together with the global names and their values.
\<close>

datatype hvalue = HUndefined | HNull | HBoolean bool | HNumber int | HString string | HRef nat

datatype cell =
    CObject "(string \<times> hvalue) list"
  | CElement string "(string \<times> hvalue) list" "hvalue list"
  | CFunction "string list" string
  | CArray "hvalue list"

type_synonym heap = "cell list"

type_synonym bindings = "string \<rightharpoonup> hvalue"

type_synonym world = "heap \<times> bindings"

datatype jserror = ReferenceError string | TypeError string | Thrown hvalue

text \<open>
  Reading a name: the module scope first, then the globals; a name bound in neither
  raises a ReferenceError.
\<close>

definition lookup :: "bindings \<Rightarrow> world \<Rightarrow> string \<Rightarrow> jserror + hvalue" where
  "lookup sc w x =
     (case sc x of
        Some v \<Rightarrow> Inr v
      | None \<Rightarrow> (case snd w x of Some v \<Rightarrow> Inr v | None \<Rightarrow> Inl (ReferenceError x)))"

text \<open>
  Reading a property, \<^verbatim>\<open>v.k\<close>: a TypeError on \<^verbatim>\<open>undefined\<close> and \<^verbatim>\<open>null\<close>, the
  own property of an object, and \<^verbatim>\<open>undefined\<close> where there is none. Elements,
  functions, arrays and primitives have no property of their own here (none of them
  defines \<^verbatim>\<open>createElement\<close>, the one key read in this theory).
\<close>

definition get_member :: "heap \<Rightarrow> hvalue \<Rightarrow> string \<Rightarrow> jserror + hvalue" where
  "get_member h v k =
     (case v of
        HUndefined \<Rightarrow> Inl (TypeError (''cannot read property '' @ k @ '' of undefined''))
      | HNull \<Rightarrow> Inl (TypeError (''cannot read property '' @ k @ '' of null''))
      | HRef a \<Rightarrow>
          (if a < length h then
             (case h ! a of
                CObject fs \<Rightarrow> (case map_of fs k of Some x \<Rightarrow> Inr x | None \<Rightarrow> Inr HUndefined)
              | CElement t ps cs \<Rightarrow> Inr HUndefined
              | CFunction ps b \<Rightarrow> Inr HUndefined
              | CArray vs \<Rightarrow> Inr HUndefined)
           else Inr HUndefined)
      | HBoolean b \<Rightarrow> Inr HUndefined
      | HNumber i \<Rightarrow> Inr HUndefined
      | HString s \<Rightarrow> Inr HUndefined)"

text \<open>
  How the build compiles a JSX element is not fixed by the repository, so the transform
  is a parameter: where the element factory comes from (the factory and the receiver of
  the call, or the error that reading them raises), and how the tag, the attributes and
  the children are handed to it.
\<close>

record jsx_transform =
  factory_of :: "(string \<Rightarrow> string \<rightharpoonup> hvalue) \<Rightarrow> bindings \<Rightarrow> world \<Rightarrow> jserror + hvalue \<times> hvalue"
  arguments_of :: "string \<Rightarrow> (string \<times> hvalue) list \<Rightarrow> hvalue list \<Rightarrow> world
      \<Rightarrow> hvalue list \<times> world"

text \<open>
  The classic transform: \<^verbatim>\<open><t a=x>c</t>\<close> is \<^verbatim>\<open>React.createElement(t, {a: x}, c)\<close>,
  with \<^verbatim>\<open>null\<close> for the attributes when there are none. The factory is the property
  \<^verbatim>\<open>createElement\<close> of whatever the name \<^verbatim>\<open>React\<close> holds, and React is the
  receiver.
\<close>

definition classic :: jsx_transform where
  "classic =
     \<lparr> factory_of = (\<lambda>mods sc w.
         case lookup sc w ''React'' of
           Inl err \<Rightarrow> Inl err
         | Inr react \<Rightarrow>
             (case get_member (fst w) react ''createElement'' of
                Inl err \<Rightarrow> Inl err
              | Inr factory \<Rightarrow> Inr (factory, react))),
       arguments_of = (\<lambda>t ps cs w.
         if ps = [] then (HString t # HNull # cs, w)
         else (HString t # HRef (length (fst w)) # cs, (fst w @ [CObject ps], snd w))) \<rparr>"

text \<open>
  The automatic transform: \<^verbatim>\<open><t a=x>c</t>\<close> is \<^verbatim>\<open>jsx(t, {a: x, children: c})\<close>,
  where \<^verbatim>\<open>jsx\<close> is imported from \<^verbatim>\<open>react/jsx-runtime\<close> by the compiler
  (\<^verbatim>\<open>undefined\<close> where that module has no such export) and called without a receiver;
  several children are handed over as one array. The name \<^verbatim>\<open>React\<close> is not read.
  (The special treatment of an attribute named \<^verbatim>\<open>key\<close>, and the factory
  \<^verbatim>\<open>jsxs\<close> that takes the place of \<^verbatim>\<open>jsx\<close> for several children, are left out.)
\<close>

definition automatic :: jsx_transform where
  "automatic =
     \<lparr> factory_of = (\<lambda>mods sc w.
         Inr (case mods ''react/jsx-runtime'' ''jsx'' of None \<Rightarrow> HUndefined | Some f \<Rightarrow> f,
              HUndefined)),
       arguments_of = (\<lambda>t ps cs w.
         case cs of
           [] \<Rightarrow> ([HString t, HRef (length (fst w))], (fst w @ [CObject ps], snd w))
         | [c] \<Rightarrow>
             ([HString t, HRef (length (fst w))],
              (fst w @ [CObject (set_field ''children'' c ps)], snd w))
         | c # c' # cs' \<Rightarrow>
             ([HString t, HRef (Suc (length (fst w)))],
              (fst w @ [CArray cs, CObject (set_field ''children'' (HRef (length (fst w))) ps)],
               snd w))) \<rparr>"

text \<open>
  What the host gives a module before its body runs: the exports of the modules it
  imports from (already linked and evaluated), the heap and the global names so far, the
  way a function runs, and the JSX transform of the build. The body of a function is not
  interpreted here: the host runs it, given the parameters and body of the function, the
  receiver, the arguments and the world, and answers with an error or a value and the
  world the call leaves. The React library, which is not part of the repository, enters
  the model through these fields.
\<close>

record environment =
  modules :: "string \<Rightarrow> string \<rightharpoonup> hvalue"
  initial_heap :: heap
  initial_globals :: bindings
  run_function :: "string list \<Rightarrow> string \<Rightarrow> hvalue \<Rightarrow> hvalue list \<Rightarrow> world
      \<Rightarrow> jserror + hvalue \<times> world"
  jsx :: jsx_transform

text \<open>Calling a value: a TypeError unless it is a function, which the host then runs.\<close>

definition call_value :: "environment \<Rightarrow> hvalue \<Rightarrow> hvalue \<Rightarrow> hvalue list \<Rightarrow> world
    \<Rightarrow> jserror + hvalue \<times> world" where
  "call_value env f this args w =
     (case f of
        HRef a \<Rightarrow>
          (if a < length (fst w) then
             (case fst w ! a of
                CFunction ps b \<Rightarrow> run_function env ps b this args w
              | CObject fs \<Rightarrow> Inl (TypeError ''not a function'')
              | CElement t ps cs \<Rightarrow> Inl (TypeError ''not a function'')
              | CArray vs \<Rightarrow> Inl (TypeError ''not a function''))
           else Inl (TypeError ''not a function''))
      | HUndefined \<Rightarrow> Inl (TypeError ''not a function'')
      | HNull \<Rightarrow> Inl (TypeError ''not a function'')
      | HBoolean b \<Rightarrow> Inl (TypeError ''not a function'')
      | HNumber i \<Rightarrow> Inl (TypeError ''not a function'')
      | HString s \<Rightarrow> Inl (TypeError ''not a function''))"

text \<open>
  Evaluation of an expression in a module scope and a world. Properties and children
  are evaluated from left to right, and the first error ends the evaluation.

  A JSX element is a call of the element factory: the factory is read as the transform
  of the build says, the attributes and the children are evaluated and handed over as
  the transform says, and the factory is called. The element is whatever the call
  returns.

  An assignment writes a global name. The names of the module scope are constants
  (imports and \<^verbatim>\<open>const\<close> declarations), and module code is strict, so that a name
  bound nowhere cannot be created.
\<close>

fun eval_expr :: "environment \<Rightarrow> bindings \<Rightarrow> expr \<Rightarrow> world \<Rightarrow> jserror + hvalue \<times> world"
and eval_fields :: "environment \<Rightarrow> bindings \<Rightarrow> (string \<times> expr) list \<Rightarrow> (string \<times> hvalue) list
      \<Rightarrow> world \<Rightarrow> jserror + (string \<times> hvalue) list \<times> world"
and eval_list :: "environment \<Rightarrow> bindings \<Rightarrow> expr list \<Rightarrow> world \<Rightarrow> jserror + hvalue list \<times> world"
where
  "eval_expr env sc (StringLit s) w = Inr (HString s, w)"
| "eval_expr env sc (Ident x) w =
     (case lookup sc w x of Inl err \<Rightarrow> Inl err | Inr v \<Rightarrow> Inr (v, w))"
| "eval_expr env sc (Arrow ps b) w =
     Inr (HRef (length (fst w)), (fst w @ [CFunction ps b], snd w))"
| "eval_expr env sc (ObjectLit fs) w =
     (case eval_fields env sc fs [] w of
        Inl err \<Rightarrow> Inl err
      | Inr (vs, w') \<Rightarrow> Inr (HRef (length (fst w')), (fst w' @ [CObject vs], snd w')))"
| "eval_expr env sc (JsxElement t as cs) w =
     (case factory_of (jsx env) (modules env) sc w of
        Inl err \<Rightarrow> Inl err
      | Inr (factory, this) \<Rightarrow>
          (case eval_fields env sc as [] w of
             Inl err \<Rightarrow> Inl err
           | Inr (ps, w1) \<Rightarrow>
               (case eval_list env sc cs w1 of
                  Inl err \<Rightarrow> Inl err
                | Inr (vs, w2) \<Rightarrow>
                    (case arguments_of (jsx env) t ps vs w2 of
                       (args, w3) \<Rightarrow> call_value env factory this args w3))))"
| "eval_expr env sc (Assign x e) w =
     (case eval_expr env sc e w of
        Inl err \<Rightarrow> Inl err
      | Inr (v, w') \<Rightarrow>
          (case sc x of
             Some c \<Rightarrow> Inl (TypeError (''assignment to constant '' @ x))
           | None \<Rightarrow>
               (case snd w' x of
                  None \<Rightarrow> Inl (ReferenceError x)
                | Some old \<Rightarrow> Inr (v, (fst w', (snd w')(x \<mapsto> v))))))"
| "eval_fields env sc [] acc w = Inr (acc, w)"
| "eval_fields env sc ((k, e) # fs) acc w =
     (case eval_expr env sc e w of
        Inl err \<Rightarrow> Inl err
      | Inr (v, w') \<Rightarrow> eval_fields env sc fs (set_field k v acc) w')"
| "eval_list env sc [] w = Inr ([], w)"
| "eval_list env sc (e # es) w =
     (case eval_expr env sc e w of
        Inl err \<Rightarrow> Inl err
      | Inr (v, w') \<Rightarrow>
          (case eval_list env sc es w' of
             Inl err \<Rightarrow> Inl err
           | Inr (vs, w'') \<Rightarrow> Inr (v # vs, w'')))"

subsection \<open>Evaluation of a module\<close>

text \<open>
  What the body of a module leaves behind: the names of the module scope, its exports,
  the heap and the globals. An import binds its name to the default export of the module
  it names, \<^verbatim>\<open>undefined\<close> where that module has none.
\<close>

record mstate =
  scope :: bindings
  exports :: "(string \<times> hvalue) list"
  heap :: heap
  globals :: bindings

fun exec_stmt :: "environment \<Rightarrow> stmt \<Rightarrow> mstate \<Rightarrow> jserror + mstate" where
  "exec_stmt env (ImportDefault x spec) st =
     Inr (st\<lparr>scope := (scope st)(x \<mapsto>
            (case modules env spec ''default'' of None \<Rightarrow> HUndefined | Some v \<Rightarrow> v))\<rparr>)"
| "exec_stmt env (ImportTypeOnly xs spec) st = Inr st"
| "exec_stmt env (ConstDecl x e) st =
     (case eval_expr env (scope st) e (heap st, globals st) of
        Inl err \<Rightarrow> Inl err
      | Inr (v, w) \<Rightarrow> Inr (st\<lparr>scope := (scope st)(x \<mapsto> v), heap := fst w, globals := snd w\<rparr>))"
| "exec_stmt env (ExportDefault e) st =
     (case eval_expr env (scope st) e (heap st, globals st) of
        Inl err \<Rightarrow> Inl err
      | Inr (v, w) \<Rightarrow>
          Inr (st\<lparr>exports := set_field ''default'' v (exports st), heap := fst w,
                  globals := snd w\<rparr>))"

fun exec_stmts :: "environment \<Rightarrow> stmt list \<Rightarrow> mstate \<Rightarrow> jserror + mstate" where
  "exec_stmts env [] st = Inr st"
| "exec_stmts env (s # ss) st =
     (case exec_stmt env s st of Inl err \<Rightarrow> Inl err | Inr st' \<Rightarrow> exec_stmts env ss st')"

definition run_module :: "environment \<Rightarrow> stmt list \<Rightarrow> jserror + mstate" where
  "run_module env ss =
     exec_stmts env ss
       \<lparr> scope = Map.empty, exports = [], heap = initial_heap env,
         globals = initial_globals env \<rparr>"

text \<open>
  The value behind a heap value, as a reader follows it: objects are read through their
  addresses, to the given depth (\<open>None\<close> beyond it, at an address outside the heap, and
  at an array, which the values of this theory do not include).
\<close>

fun reify :: "nat \<Rightarrow> heap \<Rightarrow> hvalue \<Rightarrow> jsvalue option"
and reify_fields :: "nat \<Rightarrow> heap \<Rightarrow> (string \<times> hvalue) list \<Rightarrow> (string \<times> jsvalue) list option"
and reify_list :: "nat \<Rightarrow> heap \<Rightarrow> hvalue list \<Rightarrow> jsvalue list option"
where
  "reify n h HUndefined = Some VUndefined"
| "reify n h HNull = Some VNull"
| "reify n h (HBoolean b) = Some (VBoolean b)"
| "reify n h (HNumber i) = Some (VNumber i)"
| "reify n h (HString s) = Some (VString s)"
| "reify 0 h (HRef a) = None"
| "reify (Suc n) h (HRef a) =
     (if a < length h then
        (case h ! a of
           CObject fs \<Rightarrow> map_option VObject (reify_fields n h fs)
         | CElement t ps cs \<Rightarrow>
             (case reify_fields n h ps of
                None \<Rightarrow> None
              | Some ps' \<Rightarrow> map_option (VElement t ps') (reify_list n h cs))
         | CFunction ps b \<Rightarrow> Some (VFunction ps b)
         | CArray vs \<Rightarrow> None)
      else None)"
| "reify_fields n h [] = Some []"
| "reify_fields n h ((k, v) # fs) =
     (case reify n h v of
        None \<Rightarrow> None
      | Some v' \<Rightarrow> map_option ((#) (k, v')) (reify_fields n h fs))"
| "reify_list n h [] = Some []"
| "reify_list n h (v # vs) =
     (case reify n h v of
        None \<Rightarrow> None
      | Some v' \<Rightarrow> map_option ((#) v') (reify_list n h vs))"

text \<open>What an importer of the module's default export reads: the whole value, one field.\<close>

definition default_export :: "mstate \<Rightarrow> jsvalue option" where
  "default_export st =
     (case map_of (exports st) ''default'' of
        None \<Rightarrow> None
      | Some v \<Rightarrow> reify (length (heap st)) (heap st) v)"

definition export_field :: "mstate \<Rightarrow> string \<Rightarrow> hvalue option" where
  "export_field st k =
     (case map_of (exports st) ''default'' of
        Some (HRef a) \<Rightarrow>
          (if a < length (heap st) then
             (case heap st ! a of CObject fs \<Rightarrow> map_of fs k | _ \<Rightarrow> None)
           else None)
      | _ \<Rightarrow> None)"

definition export_value :: "mstate \<Rightarrow> string \<Rightarrow> jsvalue option" where
  "export_value st k =
     (case export_field st k of
        None \<Rightarrow> None
      | Some v \<Rightarrow> reify (length (heap st)) (heap st) v)"

text \<open>A function anywhere in a value: as the value itself, a property or a child.\<close>

fun has_function :: "jsvalue \<Rightarrow> bool" where
  "has_function (VFunction ps b) = True"
| "has_function (VObject fs) = list_ex (\<lambda>kv. has_function (snd kv)) fs"
| "has_function (VElement t ps cs) =
     (list_ex (\<lambda>kv. has_function (snd kv)) ps \<or> list_ex has_function cs)"
| "has_function _ = False"

subsection \<open>The module of the theme configuration\<close>

text \<open>
  What the import binds \<^verbatim>\<open>React\<close> to, and the one call the module makes: the element
  factory, read in the world the module starts in, called for the logo.
\<close>

definition react_binding :: "environment \<Rightarrow> hvalue" where
  "react_binding env =
     (case modules env ''react'' ''default'' of None \<Rightarrow> HUndefined | Some v \<Rightarrow> v)"

definition logo_call :: "environment \<Rightarrow> jserror + hvalue \<times> world" where
  "logo_call env =
     (case factory_of (jsx env) (modules env) [''React'' \<mapsto> react_binding env]
             (initial_heap env, initial_globals env) of
        Inl err \<Rightarrow> Inl err
      | Inr (factory, this) \<Rightarrow>
          (case arguments_of (jsx env) ''span'' [] [HString ''Inngest Core'']
                  (initial_heap env, initial_globals env) of
             (args, w) \<Rightarrow> call_value env factory this args w))"

text \<open>
  The four cells the module itself adds to a heap of \<open>n\<close> cells: the objects of project,
  chat and footer, and the configuration object, which holds the logo \<open>v\<close> and refers to
  the other three.
\<close>

definition config_cells :: "hvalue \<Rightarrow> nat \<Rightarrow> cell list" where
  "config_cells v n =
     [ CObject [(''link'', HString ''https://github.com/inngest'')],
       CObject [(''link'', HString ''https://discord.com/invite/mPfcyDEdpx'')],
       CObject [(''content'', HString ''Inngest Docs'')],
       CObject [ (''logo'', v), (''project'', HRef n), (''chat'', HRef (n + 1)),
                 (''docsRepositoryBase'', HString ''https://github.com/inngest/website''),
                 (''footer'', HRef (n + 2)) ] ]"

text \<open>
  The module's outcome as an importer sees it: the error it raised, or the value of its
  default export.
\<close>

definition evaluate_config :: "environment \<Rightarrow> jserror + jsvalue option" where
  "evaluate_config env =
     (case run_module env theme_config_module of
        Inl err \<Rightarrow> Inl err
      | Inr st \<Rightarrow> Inr (default_export st))"

subsection \<open>Four environments\<close>

text \<open>
  A factory that builds the element as data, as React's does: the tag, the properties
  of the attribute object (none for \<^verbatim>\<open>null\<close>) and the children. And the factory of the
  automatic transform, which finds the children among the properties.
\<close>

definition props_fields :: "heap \<Rightarrow> hvalue \<Rightarrow> (string \<times> hvalue) list" where
  "props_fields h p =
     (case p of
        HRef a \<Rightarrow> (if a < length h then (case h ! a of CObject fs \<Rightarrow> fs | _ \<Rightarrow> []) else [])
      | _ \<Rightarrow> [])"

definition create_element :: "hvalue list \<Rightarrow> world \<Rightarrow> jserror + hvalue \<times> world" where
  "create_element args w =
     (case args of
        HString t # p # cs \<Rightarrow>
          Inr (HRef (length (fst w)), (fst w @ [CElement t (props_fields (fst w) p) cs], snd w))
      | _ \<Rightarrow> Inl (TypeError ''element type is not a tag''))"

definition children_of :: "heap \<Rightarrow> hvalue \<Rightarrow> hvalue list" where
  "children_of h c =
     (case c of
        HRef a \<Rightarrow> (if a < length h then (case h ! a of CArray vs \<Rightarrow> vs | _ \<Rightarrow> [c]) else [c])
      | _ \<Rightarrow> [c])"

definition jsx_element :: "hvalue list \<Rightarrow> world \<Rightarrow> jserror + hvalue \<times> world" where
  "jsx_element args w =
     (case args of
        HString t # p # others \<Rightarrow>
          Inr (HRef (length (fst w)),
               (fst w @ [CElement t
                   (filter (\<lambda>kv. fst kv \<noteq> ''children'') (props_fields (fst w) p))
                   (case map_of (props_fields (fst w) p) ''children'' of
                      None \<Rightarrow> []
                    | Some c \<Rightarrow> children_of (fst w) c)],
                snd w))
      | _ \<Rightarrow> Inl (TypeError ''element type is not a tag''))"

text \<open>
  A classic build with such a React: the default export of \<^verbatim>\<open>react\<close> is an object
  whose \<^verbatim>\<open>createElement\<close> is that factory.
\<close>

definition react_env :: environment where
  "react_env =
     \<lparr> modules = (\<lambda>spec. if spec = ''react'' then [''default'' \<mapsto> HRef 0] else Map.empty),
       initial_heap =
         [ CObject [(''createElement'', HRef 1)],
           CFunction [''type'', ''props'', ''children''] ''createElement'' ],
       initial_globals = Map.empty,
       run_function = (\<lambda>ps b this args w. create_element args w),
       jsx = classic \<rparr>"

text \<open>
  A classic build whose \<^verbatim>\<open>createElement\<close> answers with its first argument; a classic
  build in which the module \<^verbatim>\<open>react\<close> has no default export, so that React is
  \<^verbatim>\<open>undefined\<close>; and an automatic build in which React is \<^verbatim>\<open>undefined\<close> as well,
  but the runtime exports its factory.
\<close>

definition echo_env :: environment where
  "echo_env =
     \<lparr> modules = (\<lambda>spec. if spec = ''react'' then [''default'' \<mapsto> HRef 0] else Map.empty),
       initial_heap =
         [ CObject [(''createElement'', HRef 1)],
           CFunction [''type'', ''props'', ''children''] ''return type'' ],
       initial_globals = Map.empty,
       run_function =
         (\<lambda>ps b this args w. case args of [] \<Rightarrow> Inr (HUndefined, w) | a # as \<Rightarrow> Inr (a, w)),
       jsx = classic \<rparr>"

definition bare_env :: environment where
  "bare_env =
     \<lparr> modules = (\<lambda>spec. Map.empty), initial_heap = [], initial_globals = Map.empty,
       run_function = (\<lambda>ps b this args w. Inr (HUndefined, w)),
       jsx = classic \<rparr>"

definition automatic_env :: environment where
  "automatic_env =
     \<lparr> modules = (\<lambda>spec. if spec = ''react/jsx-runtime'' then [''jsx'' \<mapsto> HRef 0]
                          else Map.empty),
       initial_heap = [ CFunction [''type'', ''props'', ''key''] ''jsx'' ],
       initial_globals = Map.empty,
       run_function = (\<lambda>ps b this args w. jsx_element args w),
       jsx = automatic \<rparr>"

section \<open>Shape and contents of the configuration\<close>

text \<open>
  C1. The configuration defines exactly the five fields of the specification: its
  top-level keys are logo, project, chat, docsRepositoryBase and footer, each once; the
  objects under project and chat have the single key link, the object under footer has
  the single key content.
\<close>

theorem config_keys_exact:
  "set (own_keys config) = {''logo'', ''project'', ''chat'', ''docsRepositoryBase'', ''footer''}
   \<and> distinct (own_keys config)
   \<and> length (own_keys config) = 5
   \<and> own_keys (get_prop config ''project'') = [''link'']
   \<and> own_keys (get_prop config ''chat'') = [''link'']
   \<and> own_keys (get_prop config ''footer'') = [''content'']"
  by (simp add: config_def insert_commute)

text \<open>
  C7. The field values are the constants of the source: the three links, the footer
  text, and a span element with text content "Inngest Core" as the logo.
\<close>

theorem config_values_exact:
  "get_prop (get_prop config ''project'') ''link'' = VString ''https://github.com/inngest''
   \<and> get_prop (get_prop config ''chat'') ''link'' = VString ''https://discord.com/invite/mPfcyDEdpx''
   \<and> get_prop config ''docsRepositoryBase'' = VString ''https://github.com/inngest/website''
   \<and> get_prop (get_prop config ''footer'') ''content'' = VString ''Inngest Docs''
   \<and> element_tag (get_prop config ''logo'') = Some ''span''
   \<and> text_of (get_prop config ''logo'') = ''Inngest Core''"
  by (simp add: config_def)

text \<open>
  C2, as the specification states it, fails: the configuration is not a flat set of
  key-value pairs, since the value bound to project is an object, not a scalar.
\<close>

theorem config_not_flat:
  "\<not> is_flat config
   \<and> get_prop config ''project'' = VObject [(''link'', VString ''https://github.com/inngest'')]
   \<and> \<not> is_scalar (get_prop config ''project'')"
  by (simp add: config_def is_flat_def)

text \<open>
  C2, amended. The configuration is not flat: of the values bound to its five top-level
  keys only docsRepositoryBase is a scalar (a string); project, chat and footer are
  bound to plain objects that are themselves flat, their only values strings; and logo
  is bound to an element.
\<close>

theorem config_nested_one_level:
  "is_scalar (get_prop config ''docsRepositoryBase'')
   \<and> is_string (get_prop config ''docsRepositoryBase'')
   \<and> is_flat (get_prop config ''project'')
   \<and> is_flat (get_prop config ''chat'')
   \<and> is_flat (get_prop config ''footer'')
   \<and> is_string_data (get_prop config ''project'')
   \<and> is_string_data (get_prop config ''chat'')
   \<and> is_string_data (get_prop config ''footer'')
   \<and> is_element (get_prop config ''logo'')
   \<and> map (\<lambda>kv. is_scalar (snd kv)) (fields_of config) = [False, False, False, True, False]"
  by (simp add: config_def is_flat_def)

text \<open>
  C3. Each of the three link fields (project.link, chat.link, docsRepositoryBase) is a
  string holding a well-formed absolute URL: it parses into a scheme and a host.
\<close>

theorem config_links_are_urls:
  "(\<exists>s. get_prop (get_prop config ''project'') ''link'' = VString s
        \<and> parse_url s = Some \<lparr> scheme = ''https'', host = ''github.com'', port = [],
                                rest = ''/inngest'' \<rparr>)
   \<and> (\<exists>s. get_prop (get_prop config ''chat'') ''link'' = VString s
        \<and> parse_url s = Some \<lparr> scheme = ''https'', host = ''discord.com'', port = [],
                                rest = ''/invite/mPfcyDEdpx'' \<rparr>)
   \<and> (\<exists>s. get_prop config ''docsRepositoryBase'' = VString s
        \<and> parse_url s = Some \<lparr> scheme = ''https'', host = ''github.com'', port = [],
                                rest = ''/inngest/website'' \<rparr>)"
  by (simp add: config_def parse_url_def is_scheme_char_def is_host_char_def is_url_char_def
      is_alpha_def is_digit_def)

text \<open>
  C4. The field footer.content is a string, and the field logo is an element: neither a
  string nor any other scalar, nor a plain object.
\<close>

theorem config_field_kinds:
  "is_string (get_prop (get_prop config ''footer'') ''content'')
   \<and> is_element (get_prop config ''logo'')
   \<and> \<not> is_string (get_prop config ''logo'')
   \<and> \<not> is_scalar (get_prop config ''logo'')
   \<and> \<not> is_plain_object (get_prop config ''logo'')"
  by (simp add: config_def)

subsection \<open>Strings inside plain objects survive JSON\<close>

text \<open>Every string reads back from its quoted and escaped text.\<close>

lemma hex_value_hex_digit: "k < 16 \<Longrightarrow> hex_value (hex_digit k) = Some k"
  by (auto simp add: hex_value_def hex_digit_def Let_def)

lemma unicode_escape_control:
  assumes "(of_char c :: nat) < 32"
  shows "unicode_escape CHR ''0'' CHR ''0'' (hex_digit (of_char c div 16)) (hex_digit (of_char c mod 16))
         = Some c"
proof -
  have a: "(of_char c :: nat) div 16 < 16" using assms by simp
  have b: "(of_char c :: nat) mod 16 < 16" by simp
  have z: "hex_value CHR ''0'' = Some 0" by (simp add: hex_value_def)
  show ?thesis
    by (simp add: unicode_escape_def hex_value_hex_digit [OF a] hex_value_hex_digit [OF b] z)
qed

lemma parse_escaped_char:
  "parse_string_body (json_escape c @ s) =
     map_option (\<lambda>(t, r). (c # t, r)) (parse_string_body s)"
  using unicode_escape_control [of c]
  by (auto simp add: json_escape_def unescape_def dquote_def backslash_def)

lemma parse_string_body_escaped:
  "parse_string_body (concat (map json_escape s) @ dquote # r) = Some (s, r)"
  by (induction s) (simp_all add: parse_escaped_char)

text \<open>
  The text of string data exists, and the parser reads it back: values by \<open>parse_value\<close>,
  the members of an object one after the other by \<open>parse_members\<close>, each new key going to
  the end of the fields read so far.
\<close>

lemma skip_ws_token:
  "c \<in> {dquote, CHR ''{'', CHR ''}'', CHR '':'', CHR '',''} \<Longrightarrow> skip_ws (c # s) = c # s"
  by (auto simp add: skip_ws_def dquote_def)

lemma set_field_fresh: "k \<notin> fst ` set acc \<Longrightarrow> set_field k v acc = acc @ [(k, v)]"
  by (induction acc) auto

lemma string_data_kept: "is_string_data v \<Longrightarrow> v \<noteq> VUndefined \<and> \<not> is_function v"
  by (cases v) simp_all

lemma json_text_exists:
  "is_string_data v \<Longrightarrow> \<exists>t. json_stringify v = Some t"
  "list_all (\<lambda>kv. is_string_data (snd kv)) fs
     \<Longrightarrow> \<exists>ms. json_members fs = Some ms \<and> length ms = length fs"
proof (induction v and fs rule: json_stringify_json_members.induct)
  case (10 k v fs)
  then show ?case
    using string_data_kept [of v] by auto
qed auto

lemma parse_quoted:
  "parse_string_body (tl (json_quote s) @ r) = Some (s, r)"
  "hd (json_quote s) = dquote"
  "json_quote s @ r = dquote # tl (json_quote s) @ r"
  using parse_string_body_escaped [of s r] by (simp_all add: json_quote_def)

lemma join_with_cons:
  "join_with sep (m # ms) = (if ms = [] then m else m @ sep @ join_with sep ms)"
  by (cases ms) simp_all

lemma dquote_neq: "CHR ''{'' \<noteq> dquote" "dquote \<noteq> CHR ''}''"
  by (simp_all add: dquote_def)

lemma parse_json_text:
  "is_string_data v \<Longrightarrow> distinct_keys v \<Longrightarrow> json_stringify v = Some t \<Longrightarrow> length t \<le> n
     \<Longrightarrow> parse_value n (t @ r) = Some (v, r)"
  "list_all (\<lambda>kv. is_string_data (snd kv)) fs \<Longrightarrow> list_all (\<lambda>kv. distinct_keys (snd kv)) fs
     \<Longrightarrow> fs \<noteq> [] \<Longrightarrow> json_members fs = Some ms \<Longrightarrow> distinct (map fst acc @ map fst fs)
     \<Longrightarrow> length (join_with '','' ms) < n
     \<Longrightarrow> parse_members n (join_with '','' ms @ CHR ''}'' # r) acc = Some (acc @ fs, r)"
proof (induction v and fs arbitrary: t n r and ms n r acc
    rule: json_stringify_json_members.induct)
  case (5 s)
  from 5 have t: "t = json_quote s" by simp
  from 5 t obtain m where n: "n = Suc m" by (cases n) (simp_all add: json_quote_def)
  show ?case
    unfolding t n
    by (simp add: parse_quoted(3) [of s r] skip_ws_token parse_quoted(1))
next
  case (7 fs)
  then obtain ms where ms: "json_members fs = Some ms"
    and t: "t = ''{'' @ join_with '','' ms @ ''}''"
    by auto
  from 7 t obtain m where n: "n = Suc m" and m: "length (join_with '','' ms) < m"
    by (cases n) auto
  show ?case
  proof (cases "fs = []")
    case True
    with ms have "ms = []" by simp
    with True show ?thesis by (simp add: t n skip_ws_token dquote_neq)
  next
    case False
    from 7 have sd: "list_all (\<lambda>kv. is_string_data (snd kv)) fs"
      and dk: "list_all (\<lambda>kv. distinct_keys (snd kv)) fs"
      and di: "distinct (map fst [] @ map fst fs)"
      by simp_all
    have pm: "parse_members m (join_with '','' ms @ CHR ''}'' # r) [] = Some ([] @ fs, r)"
      by (rule "7.IH" [OF sd dk False ms di m])
    from False ms obtain k v fs' where fs: "fs = (k, v) # fs'" by (cases fs) auto
    from ms sd obtain tv ms' where "ms = (json_quote k @ '':'' @ tv) # ms'"
      using string_data_kept [of v] by (auto simp add: fs split: option.splits)
    then have start: "join_with '','' ms @ CHR ''}'' # r
        = dquote # tl (join_with '','' ms @ CHR ''}'' # r)"
      by (simp add: join_with_cons json_quote_def)
    note ne = dquote_neq(2)
    show ?thesis
      apply (simp add: t n skip_ws_token dquote_neq)
      apply (subst start)
      apply (simp only: skip_ws_token insertI1 list.case ne if_False)
      apply (subst start [symmetric])
      apply (simp add: pm)
      done
  qed
next
  case (10 k v fs)
  from "10.prems"(1) have sv: "is_string_data v"
    and sfs: "list_all (\<lambda>kv. is_string_data (snd kv)) fs" by simp_all
  from "10.prems"(2) have dv: "distinct_keys v"
    and dfs: "list_all (\<lambda>kv. distinct_keys (snd kv)) fs" by simp_all
  from string_data_kept [OF sv] have keep: "\<not> (v = VUndefined \<or> is_function v)" by simp
  from json_text_exists(1) [OF sv] obtain tv where tv: "json_stringify v = Some tv" by blast
  from json_text_exists(2) [OF sfs] obtain ms' where ms': "json_members fs = Some ms'"
    and len: "length ms' = length fs" by blast
  from "10.prems"(4) keep tv ms' have ms: "ms = (json_quote k @ '':'' @ tv) # ms'" by simp
  from "10.prems"(5) have fresh: "k \<notin> fst ` set acc"
    and di: "distinct (map fst (acc @ [(k, v)]) @ map fst fs)" by auto
  from "10.prems"(6) obtain m where n: "n = Suc m" by (cases n) simp_all
  have sf: "set_field k v acc = acc @ [(k, v)]" by (rule set_field_fresh [OF fresh])
  show ?case
  proof (cases "fs = []")
    case True
    with len have e: "ms' = []" by simp
    from "10.prems"(6) have tvm: "length tv \<le> m" by (simp add: ms e n)
    have pv: "parse_value m (tv @ CHR ''}'' # r) = Some (v, CHR ''}'' # r)"
      by (rule "10.IH"(2) [OF keep sv dv tv tvm])
    show ?thesis
      by (simp add: ms e n True parse_quoted(3) [of k] skip_ws_token parse_quoted(1) pv sf)
  next
    case False
    with len have ne: "ms' \<noteq> []" by auto
    from "10.prems"(6) have tvm: "length tv \<le> m"
      and rest: "length (join_with '','' ms') < m" by (simp_all add: ms ne n join_with_cons)
    have pv: "parse_value m (tv @ CHR '','' # join_with '','' ms' @ CHR ''}'' # r)
        = Some (v, CHR '','' # join_with '','' ms' @ CHR ''}'' # r)"
      by (rule "10.IH"(2) [OF keep sv dv tv tvm])
    have pm: "parse_members m (join_with '','' ms' @ CHR ''}'' # r) (acc @ [(k, v)])
        = Some ((acc @ [(k, v)]) @ fs, r)"
      by (rule "10.IH"(3) [OF keep tv sfs dfs False ms' di rest])
    show ?thesis
      by (simp add: ms n ne join_with_cons parse_quoted(3) [of k] skip_ws_token
          parse_quoted(1) pv sf pm)
  qed
qed simp_all

text \<open>
  Strings inside plain objects, no key twice in an object: such a value has a JSON text,
  and the text parses back to the value.
\<close>

theorem json_roundtrip_string_data:
  assumes "is_string_data v" and "distinct_keys v"
  shows "\<exists>t. json_stringify v = Some t \<and> json_parse t = Some v"
proof -
  from json_text_exists(1) [OF assms(1)] obtain t where t: "json_stringify v = Some t"
    by blast
  have "parse_value (Suc (length t)) (t @ []) = Some (v, [])"
    by (rule parse_json_text(1) [OF assms t]) simp
  then have "json_parse t = Some v"
    by (simp add: json_parse_def skip_ws_def)
  with t show ?thesis by blast
qed

text \<open>
  C8. The three link fields begin with \<^verbatim>\<open>https://\<close>, and every field except logo
  is plain data made of strings inside plain objects, so that the configuration without
  logo survives JSON serialisation unchanged: its JSON text parses back to it.
\<close>

theorem config_https_and_json_roundtrip:
  "(\<exists>s. get_prop (get_prop config ''project'') ''link'' = VString s \<and> take 8 s = ''https://'')
   \<and> (\<exists>s. get_prop (get_prop config ''chat'') ''link'' = VString s \<and> take 8 s = ''https://'')
   \<and> (\<exists>s. get_prop config ''docsRepositoryBase'' = VString s \<and> take 8 s = ''https://'')
   \<and> map fst (fields_of (without_key ''logo'' config))
       = [''project'', ''chat'', ''docsRepositoryBase'', ''footer'']
   \<and> is_string_data (without_key ''logo'' config)
   \<and> json_stringify (without_key ''logo'' config) = Some config_json
   \<and> json_parse config_json = Some (without_key ''logo'' config)"
proof -
  have links:
    "(\<exists>s. get_prop (get_prop config ''project'') ''link'' = VString s \<and> take 8 s = ''https://'')
     \<and> (\<exists>s. get_prop (get_prop config ''chat'') ''link'' = VString s \<and> take 8 s = ''https://'')
     \<and> (\<exists>s. get_prop config ''docsRepositoryBase'' = VString s \<and> take 8 s = ''https://'')"
    by (simp add: config_def)
  have plain:
    "map fst (fields_of (without_key ''logo'' config))
       = [''project'', ''chat'', ''docsRepositoryBase'', ''footer'']
     \<and> is_string_data (without_key ''logo'' config)"
    by (simp add: config_def)
  have to_text: "json_stringify (without_key ''logo'' config) = Some config_json"
    by (simp add: config_def config_json_def json_quote_def json_escape_def dquote_def
        backslash_def)
  have from_text: "json_parse config_json = Some (without_key ''logo'' config)"
    by (simp add: config_def config_json_def json_parse_def skip_ws_def dquote_def
        backslash_def)
  from links plain to_text from_text show ?thesis by blast
qed

section \<open>Evaluating the module\<close>

text \<open>
  A literal without names, elements and assignments evaluates in every environment,
  scope and world, to the same value, and only adds cells to the heap.
\<close>

lemma eval_literal_adds_cells:
  "is_literal e \<Longrightarrow> \<exists>v cs. eval_expr env sc e w = Inr (v, (fst w @ cs, snd w))"
  "list_all (\<lambda>ke. is_literal (snd ke)) fs
     \<Longrightarrow> \<exists>vs cs. eval_fields env sc fs acc w = Inr (vs, (fst w @ cs, snd w))"
  "list_all is_literal es \<Longrightarrow> \<exists>ws cs. eval_list env sc es w = Inr (ws, (fst w @ cs, snd w))"
proof (induction env sc e w and env sc fs acc w and env sc es w
    rule: eval_expr_eval_fields_eval_list.induct)
qed (fastforce split: sum.splits option.splits)+

lemma eval_literal_env_free:
  "is_literal e \<Longrightarrow> eval_expr env sc e w = eval_expr env' sc' e w"
  "list_all (\<lambda>ke. is_literal (snd ke)) fs
     \<Longrightarrow> eval_fields env sc fs acc w = eval_fields env' sc' fs acc w"
  "list_all is_literal es \<Longrightarrow> eval_list env sc es w = eval_list env' sc' es w"
proof (induction env sc e w and env sc fs acc w and env sc es w
    rule: eval_expr_eval_fields_eval_list.induct)
qed (auto split: sum.splits option.splits)

text \<open>
  The evaluator does raise and does write where a module asks for it: exporting
  \<^verbatim>\<open>config\<close> without declaring it is a ReferenceError, and a module that assigns to a
  global name leaves the globals changed.
\<close>

lemma undeclared_export_raises:
  "run_module bare_env [ExportDefault (Ident ''config'')] = Inl (ReferenceError ''config'')"
  by (simp add: run_module_def bare_env_def lookup_def)

lemma assignment_writes_global:
  "\<exists>st. run_module (bare_env\<lparr>initial_globals := [''title'' \<mapsto> HString ''old'']\<rparr>)
          [ExportDefault (Assign ''title'' (StringLit ''new''))] = Inr st
        \<and> globals st ''title'' = Some (HString ''new'')"
  by (simp add: run_module_def bare_env_def)

text \<open>
  The whole behaviour of the module, in every environment: it makes the call for the
  logo; if the call raises, so does the module, with that error; if the call returns a
  value and a world, the module adds its four cells to the heap of that world, binds
  \<^verbatim>\<open>React\<close> and \<^verbatim>\<open>config\<close>, and exports the address of the configuration object.
\<close>

lemma run_theme_config_module:
  "run_module env theme_config_module =
     (case logo_call env of
        Inl err \<Rightarrow> Inl err
      | Inr (v, w) \<Rightarrow>
          Inr \<lparr> scope = [''React'' \<mapsto> react_binding env,
                          ''config'' \<mapsto> HRef (length (fst w) + 3)],
                exports = [(''default'', HRef (length (fst w) + 3))],
                heap = fst w @ config_cells v (length (fst w)),
                globals = snd w \<rparr>)"
  by (simp add: run_module_def theme_config_module_def config_literal_def logo_call_def
      react_binding_def lookup_def config_cells_def eval_nat_numeral
      split: sum.split prod.split)

lemma reify_ref:
  "0 < n \<Longrightarrow> reify n h (HRef a) =
     (if a < length h then
        (case h ! a of
           CObject fs \<Rightarrow> map_option VObject (reify_fields (n - 1) h fs)
         | CElement t ps cs \<Rightarrow>
             (case reify_fields (n - 1) h ps of
                None \<Rightarrow> None
              | Some ps' \<Rightarrow> map_option (VElement t ps') (reify_list (n - 1) h cs))
         | CFunction ps b \<Rightarrow> Some (VFunction ps b)
         | CArray vs \<Rightarrow> None)
      else None)"
  by (cases n) (simp_all split: cell.split option.split)

text \<open>
  Where the factory builds the element as data, the object the module exports reads as
  the value \<open>config\<close>, whatever the heap before; so it is in \<open>react_env\<close>.
\<close>

lemma default_export_config:
  assumes "logo_call env =
    create_element [HString ''span'', HNull, HString ''Inngest Core'']
      (initial_heap env, initial_globals env)"
  shows "evaluate_config env = Inr (Some config)"
  using assms
  by (simp add: evaluate_config_def run_theme_config_module create_element_def
      props_fields_def default_export_def reify_ref config_cells_def config_def nth_append)

lemma logo_call_react_env:
  "logo_call react_env =
     Inr (HRef 2, (initial_heap react_env @ [CElement ''span'' [] [HString ''Inngest Core'']],
                   Map.empty))"
  by (simp add: logo_call_def react_env_def react_binding_def classic_def lookup_def
      get_member_def call_value_def create_element_def props_fields_def)

lemma logo_call_echo_env:
  "logo_call echo_env = Inr (HString ''span'', (initial_heap echo_env, Map.empty))"
  by (simp add: logo_call_def echo_env_def react_binding_def classic_def lookup_def
      get_member_def call_value_def)


lemma logo_call_automatic_env:
  "logo_call automatic_env =
     Inr (HRef 2, (initial_heap automatic_env
                     @ [CObject [(''children'', HString ''Inngest Core'')],
                        CElement ''span'' [] [HString ''Inngest Core'']],
                   Map.empty))"
  apply (simp add: logo_call_def automatic_env_def automatic_def)
  apply (simp add: call_value_def)
  apply (simp add: jsx_element_def props_fields_def children_of_def)
  done

text \<open>The automatic build needs no React: its module exports \<open>config\<close> all the same.\<close>

lemma evaluate_config_automatic_env: "evaluate_config automatic_env = Inr (Some config)"
  unfolding evaluate_config_def run_theme_config_module logo_call_automatic_env
  by (simp add: default_export_def reify_ref config_cells_def config_def automatic_env_def)

lemma evaluate_config_react_env: "evaluate_config react_env = Inr (Some config)"
  by (rule default_export_config)
    (simp add: logo_call_react_env, simp add: react_env_def create_element_def props_fields_def)

text \<open>The fields other than the logo, read off the exported object, are those of \<open>config\<close>.\<close>

lemma export_values_constant:
  assumes "logo_call env = Inr (v, w)"
  shows "\<exists>st. run_module env theme_config_module = Inr st
      \<and> export_field st ''logo'' = Some v
      \<and> map (export_value st) [''project'', ''chat'', ''docsRepositoryBase'', ''footer'']
          = map (\<lambda>k. Some (get_prop config k))
              [''project'', ''chat'', ''docsRepositoryBase'', ''footer'']
      \<and> heap st = fst w @ config_cells v (length (fst w))
      \<and> globals st = snd w"
  using assms
  by (simp add: run_theme_config_module export_field_def export_value_def reify_ref
      config_cells_def config_def nth_append)

text \<open>
  C5, as the specification states it, fails: the exported value depends on the
  environment. In a classic build with a React whose factory builds elements the module
  exports \<open>config\<close>; with a React whose factory answers with its first argument the
  logo is the string "span"; the two evaluations export different values.
\<close>

theorem module_result_depends_on_react:
  "evaluate_config react_env = Inr (Some config)
   \<and> evaluate_config echo_env = Inr (Some (VObject
        [ (''logo'', VString ''span''),
          (''project'', VObject [(''link'', VString ''https://github.com/inngest'')]),
          (''chat'', VObject [(''link'', VString ''https://discord.com/invite/mPfcyDEdpx'')]),
          (''docsRepositoryBase'', VString ''https://github.com/inngest/website''),
          (''footer'', VObject [(''content'', VString ''Inngest Docs'')]) ]))
   \<and> evaluate_config react_env \<noteq> evaluate_config echo_env"
proof -
  have a: "evaluate_config react_env = Inr (Some config)"
    by (rule evaluate_config_react_env)
  have b: "evaluate_config echo_env = Inr (Some (VObject
        [ (''logo'', VString ''span''),
          (''project'', VObject [(''link'', VString ''https://github.com/inngest'')]),
          (''chat'', VObject [(''link'', VString ''https://discord.com/invite/mPfcyDEdpx'')]),
          (''docsRepositoryBase'', VString ''https://github.com/inngest/website''),
          (''footer'', VObject [(''content'', VString ''Inngest Docs'')]) ]))"
    unfolding evaluate_config_def run_theme_config_module logo_call_echo_env
    by (simp add: default_export_def reify_ref config_cells_def echo_env_def)
  have c: "evaluate_config react_env \<noteq> evaluate_config echo_env"
    by (simp add: a b config_def)
  from a b c show ?thesis by blast
qed

text \<open>
  C5, amended. Evaluating the module has no behaviour of its own beyond one call, that
  of the element factory the JSX of the logo compiles to (\<^verbatim>\<open>React.createElement\<close> in
  a classic build, \<^verbatim>\<open>jsx\<close> of the runtime in an automatic one). In any two
  environments in which that call returns, the evaluation succeeds. The logo of the
  exported object is what the factory returned, and so depends on the environment. The
  other fields (project, chat, docsRepositoryBase, footer) read as the same constants in
  both evaluations, and none of them is a function. The literal reads no name but React.
  The evaluation adds its four objects to the heap the call left and writes nothing
  else, neither a cell nor a global. Two evaluations in which the call returns the same
  result and leaves the same world export identical values and leave identical exports,
  heaps and globals.
\<close>

theorem module_evaluation_pure:
  assumes "logo_call env = Inr (v, w)" and "logo_call env' = Inr (v', w')"
  shows "\<exists>st st'. run_module env theme_config_module = Inr st
      \<and> run_module env' theme_config_module = Inr st'
      \<and> export_field st ''logo'' = Some v
      \<and> export_field st' ''logo'' = Some v'
      \<and> map (export_value st) [''project'', ''chat'', ''docsRepositoryBase'', ''footer'']
          = map (\<lambda>k. Some (get_prop config k))
              [''project'', ''chat'', ''docsRepositoryBase'', ''footer'']
      \<and> map (export_value st') [''project'', ''chat'', ''docsRepositoryBase'', ''footer'']
          = map (export_value st) [''project'', ''chat'', ''docsRepositoryBase'', ''footer'']
      \<and> \<not> has_function (without_key ''logo'' config)
      \<and> idents_of config_literal = [''React'']
      \<and> heap st = fst w @ config_cells v (length (fst w))
      \<and> globals st = snd w
      \<and> heap st' = fst w' @ config_cells v' (length (fst w'))
      \<and> globals st' = snd w'
      \<and> (v = v' \<and> w = w' \<longrightarrow>
           default_export st = default_export st' \<and> exports st = exports st'
           \<and> heap st = heap st' \<and> globals st = globals st')"
proof -
  from export_values_constant [OF assms(1)] obtain st where
    st: "run_module env theme_config_module = Inr st"
    and logo: "export_field st ''logo'' = Some v"
    and vals: "map (export_value st) [''project'', ''chat'', ''docsRepositoryBase'', ''footer'']
          = map (\<lambda>k. Some (get_prop config k))
              [''project'', ''chat'', ''docsRepositoryBase'', ''footer'']"
    and frame: "heap st = fst w @ config_cells v (length (fst w))" "globals st = snd w"
    by blast
  from export_values_constant [OF assms(2)] obtain st' where
    st': "run_module env' theme_config_module = Inr st'"
    and logo': "export_field st' ''logo'' = Some v'"
    and vals': "map (export_value st') [''project'', ''chat'', ''docsRepositoryBase'', ''footer'']
          = map (\<lambda>k. Some (get_prop config k))
              [''project'', ''chat'', ''docsRepositoryBase'', ''footer'']"
    and frame': "heap st' = fst w' @ config_cells v' (length (fst w'))" "globals st' = snd w'"
    by blast
  have same: "map (export_value st') [''project'', ''chat'', ''docsRepositoryBase'', ''footer'']
          = map (export_value st) [''project'', ''chat'', ''docsRepositoryBase'', ''footer'']"
    by (simp only: vals vals')
  have no_fun: "\<not> has_function (without_key ''logo'' config)"
    by (simp add: config_def)
  have names: "idents_of config_literal = [''React'']"
    by (simp add: config_literal_def)
  have same_call: "v = v' \<and> w = w' \<longrightarrow>
           default_export st = default_export st' \<and> exports st = exports st'
           \<and> heap st = heap st' \<and> globals st = globals st'"
    using st st' assms
    by (auto simp add: run_theme_config_module default_export_def)
  from st st' logo logo' vals same no_fun names frame frame' same_call
  show ?thesis by blast
qed

theorem module_evaluation_pure_witness:
  "logo_call react_env
     = Inr (HRef 2, (initial_heap react_env @ [CElement ''span'' [] [HString ''Inngest Core'']],
                     Map.empty))
   \<and> logo_call echo_env = Inr (HString ''span'', (initial_heap echo_env, Map.empty))
   \<and> (\<exists>st st'. run_module react_env theme_config_module = Inr st
        \<and> run_module echo_env theme_config_module = Inr st'
        \<and> export_field st ''logo'' = Some (HRef 2)
        \<and> export_field st' ''logo'' = Some (HString ''span'')
        \<and> export_value st ''project''
            = Some (VObject [(''link'', VString ''https://github.com/inngest'')])
        \<and> export_value st' ''project'' = export_value st ''project''
        \<and> globals st = Map.empty)
   \<and> (\<exists>st st'. run_module react_env theme_config_module = Inr st
        \<and> run_module react_env theme_config_module = Inr st'
        \<and> default_export st = default_export st' \<and> heap st = heap st')"
proof -
  have two: "\<exists>st st'. run_module react_env theme_config_module = Inr st
        \<and> run_module echo_env theme_config_module = Inr st'
        \<and> export_field st ''logo'' = Some (HRef 2)
        \<and> export_field st' ''logo'' = Some (HString ''span'')
        \<and> export_value st ''project''
            = Some (VObject [(''link'', VString ''https://github.com/inngest'')])
        \<and> export_value st' ''project'' = export_value st ''project''
        \<and> globals st = Map.empty"
    using module_evaluation_pure [OF logo_call_react_env logo_call_echo_env]
    by (auto simp add: config_def)
  have one: "\<exists>st st'. run_module react_env theme_config_module = Inr st
        \<and> run_module react_env theme_config_module = Inr st'
        \<and> default_export st = default_export st' \<and> heap st = heap st'"
    using module_evaluation_pure [OF logo_call_react_env logo_call_react_env]
    by auto
  from two one logo_call_react_env logo_call_echo_env show ?thesis by blast
qed




text \<open>
  C9. The module exports a single symbol, the default export, and what it exports is the
  very object bound to the local constant \<^verbatim>\<open>config\<close>: the same address, holding the
  configuration object. (The module has exports once it has run, that is, once the call
  for the logo has returned.)
\<close>

theorem module_exports_config_only:
  assumes "logo_call env = Inr (v, w)"
  shows "\<exists>st a fs. run_module env theme_config_module = Inr st
      \<and> map fst (exports st) = [''default'']
      \<and> map_of (exports st) ''default'' = Some (HRef a)
      \<and> scope st ''config'' = Some (HRef a)
      \<and> a < length (heap st)
      \<and> heap st ! a = CObject fs
      \<and> map fst fs = [''logo'', ''project'', ''chat'', ''docsRepositoryBase'', ''footer'']"
  using assms by (simp add: run_theme_config_module config_cells_def nth_append)

theorem module_exports_config_only_witness:
  "logo_call react_env
     = Inr (HRef 2, (initial_heap react_env @ [CElement ''span'' [] [HString ''Inngest Core'']],
                     Map.empty))
   \<and> (\<exists>st a fs. run_module react_env theme_config_module = Inr st
        \<and> map fst (exports st) = [''default'']
        \<and> map_of (exports st) ''default'' = Some (HRef a)
        \<and> scope st ''config'' = Some (HRef a)
        \<and> a < length (heap st)
        \<and> heap st ! a = CObject fs
        \<and> map fst fs = [''logo'', ''project'', ''chat'', ''docsRepositoryBase'', ''footer''])"
  using module_exports_config_only [OF logo_call_react_env] logo_call_react_env
  by simp

end
